theory Spec2Isabelle
  imports Complex_Main "HOL-Library.Multiset" "HOL-Library.Sublist"
begin

section \<open>Domain model (types.ts)\<close>

text \<open>
  The records follow the interfaces of the source. Field names carry a prefix per
  record (\<open>ci_\<close>, \<open>wi_\<close>, \<open>ev_\<close>, \<open>o_\<close>, \<open>app_\<close>), since several interfaces share the names
  \<open>id\<close>, \<open>imageUrl\<close> and \<open>explanation\<close>. Strings are HOL strings; emoji of the source
  (icons, greetings) are not text of the model: they are written by name, or are
  constructors of small datatypes.
\<close>

datatype ClothingCategory = Top | Bottom | Outerwear | Shoes | OnePiece | Accessory | Other

record ClothingItem =
  ci_id :: string
  ci_imageUrl :: string
  ci_category :: ClothingCategory
  ci_color :: string
  ci_season :: string
  ci_description :: string

text \<open>
  A JavaScript \<open>number\<close>, as far as the program looks at it: not-a-number, the two
  infinities, or a finite value (every finite double is a rational; both zeros are
  \<open>Finite 0\<close>).
\<close>

datatype js_number = NaN | NegInfinity | Finite rat | PosInfinity

fun js_lt :: "js_number \<Rightarrow> js_number \<Rightarrow> bool" where
  "js_lt NaN _ = False"
| "js_lt _ NaN = False"
| "js_lt _ NegInfinity = False"
| "js_lt NegInfinity _ = True"
| "js_lt PosInfinity _ = False"
| "js_lt _ PosInfinity = True"
| "js_lt (Finite a) (Finite b) = (a < b)"

fun js_le :: "js_number \<Rightarrow> js_number \<Rightarrow> bool" where
  "js_le NaN _ = False"
| "js_le _ NaN = False"
| "js_le NegInfinity _ = True"
| "js_le _ PosInfinity = True"
| "js_le _ NegInfinity = False"
| "js_le PosInfinity _ = False"
| "js_le (Finite a) (Finite b) = (a \<le> b)"

text \<open>\<open>x || d\<close> on numbers: \<open>NaN\<close> and zero are falsy.\<close>

fun number_or :: "js_number \<Rightarrow> js_number \<Rightarrow> js_number" where
  "number_or NaN d = d"
| "number_or (Finite a) d = (if a = 0 then d else Finite a)"
| "number_or x d = x"

record WishlistItem =
  wi_id :: string
  wi_name :: string
  wi_price :: js_number
  wi_imageUrl :: string

record WeatherData =
  temperature :: js_number
  weatherCode :: js_number
  isDay :: bool

text \<open>
  An \<open>Outfit\<close> as the program holds it at run time. The interface declares all four
  fields, but every outfit comes out of \<open>JSON.parse\<close> unchecked, so a field that the
  response leaves out is \<open>undefined\<close> (\<open>None\<close>). A field that is present has its declared
  type.
\<close>

record Outfit =
  o_id :: "string option"
  o_itemIds :: "string list option"
  o_vibe :: "string option"
  o_explanation :: "string option"

text \<open>
  A JavaScript object, as far as \<open>JSON.parse\<close> and \<open>Object.entries\<close> are concerned: its
  own properties in the order of their creation. \<open>JSON.parse\<close> defines the members of an
  object text one after the other, so a key that the text repeats keeps the place of its
  first mention and the value of its last. \<open>Object.entries\<close> lists the keys that are array
  indices first, in ascending numeric order, and then the other keys in the order of
  creation. An array index is the canonical decimal text of a number below \<open>2^32 - 1\<close>.
\<close>

type_synonym 'v js_object = "(string \<times> 'v) list"

fun define_property :: "string \<Rightarrow> 'v \<Rightarrow> 'v js_object \<Rightarrow> 'v js_object" where
  "define_property k v [] = [(k, v)]"
| "define_property k v ((k', v') # ps) =
     (if k' = k then (k, v) # ps else (k', v') # define_property k v ps)"

definition object_of_members :: "(string \<times> 'v) list \<Rightarrow> 'v js_object" where
  "object_of_members members = foldl (\<lambda>obj (k, v). define_property k v obj) [] members"

definition is_digit :: "char \<Rightarrow> bool" where
  "is_digit c = (48 \<le> (of_char c :: nat) \<and> (of_char c :: nat) \<le> 57)"

definition digits_value :: "string \<Rightarrow> nat" where
  "digits_value s = foldl (\<lambda>n c. 10 * n + ((of_char c :: nat) - 48)) 0 s"

definition is_array_index :: "string \<Rightarrow> bool" where
  "is_array_index s =
     (case s of
        [] \<Rightarrow> False
      | c # cs \<Rightarrow>
          list_all is_digit s \<and> (if c = CHR ''0'' then cs = [] else True)
          \<and> digits_value s < 4294967295)"

definition Object_entries :: "'v js_object \<Rightarrow> (string \<times> 'v) list" where
  "Object_entries obj =
     sort_key (\<lambda>(k, v). digits_value k) (filter (\<lambda>(k, v). is_array_index k) obj)
     @ filter (\<lambda>(k, v). \<not> is_array_index k) obj"

text \<open>
  \<open>WeeklyPlan\<close> is an object indexed by day name. The value of a day is \<open>null\<close> (\<open>None\<close>)
  or an outfit object.
\<close>

type_synonym WeeklyPlan = "Outfit option js_object"

record ScheduleEvent =
  ev_id :: string
  ev_title :: string
  ev_time :: string
  ev_icon :: string

text \<open>JavaScript truthiness of a string, and of a \<open>string | null\<close>.\<close>

definition truthy :: "string \<Rightarrow> bool" where
  "truthy s = (s \<noteq> [])"

definition truthy_opt :: "string option \<Rightarrow> bool" where
  "truthy_opt x = (case x of None \<Rightarrow> False | Some s \<Rightarrow> truthy s)"

text \<open>\<open>x || d\<close> where \<open>x\<close> is an optional string field.\<close>

definition string_or :: "string option \<Rightarrow> string \<Rightarrow> string" where
  "string_or x d = (case x of None \<Rightarrow> d | Some s \<Rightarrow> if truthy s then s else d)"

section \<open>Root coordinator (App)\<close>

text \<open>
  The collections the coordinator owns, with the pending schedule deletion. Each
  mutator of the source is a state update \<open>setX(prev => ...)\<close>.
\<close>

record App =
  app_wardrobe :: "ClothingItem list"
  app_wishlist :: "WishlistItem list"
  app_events :: "ScheduleEvent list"
  app_eventToDelete :: "string option"

definition addWardrobeItem :: "ClothingItem \<Rightarrow> App \<Rightarrow> App" where
  "addWardrobeItem item s = s\<lparr>app_wardrobe := item # app_wardrobe s\<rparr>"

definition deleteWardrobeItem :: "string \<Rightarrow> App \<Rightarrow> App" where
  "deleteWardrobeItem i s = s\<lparr>app_wardrobe := filter (\<lambda>item. ci_id item \<noteq> i) (app_wardrobe s)\<rparr>"

definition addToWishlist :: "WishlistItem \<Rightarrow> App \<Rightarrow> App" where
  "addToWishlist item s = s\<lparr>app_wishlist := item # app_wishlist s\<rparr>"

definition deleteWishlistItem :: "string \<Rightarrow> App \<Rightarrow> App" where
  "deleteWishlistItem i s = s\<lparr>app_wishlist := filter (\<lambda>item. wi_id item \<noteq> i) (app_wishlist s)\<rparr>"

definition confirmDeleteEvent :: "App \<Rightarrow> App" where
  "confirmDeleteEvent s =
     (case app_eventToDelete s of
        None \<Rightarrow> s
      | Some i \<Rightarrow>
          if truthy i
          then s\<lparr>app_events := filter (\<lambda>e. ev_id e \<noteq> i) (app_events s), app_eventToDelete := None\<rparr>
          else s)"

text \<open>
  The rest of the schedule: the two events the coordinator starts with, the event the
  modal saves, and the pending deletion. Icons are written by name. \<open>now\<close> is the clock
  reading \<open>Date.now()\<close>, a whole number of milliseconds, and \<open>Number_toString\<close> its
  decimal text. The flag of the modal is not part of the model.
\<close>

definition initialApp :: App where
  "initialApp =
     \<lparr>app_wardrobe = [], app_wishlist = [],
      app_events =
        [\<lparr>ev_id = ''1'', ev_title = ''Coffee Date'', ev_time = ''10:00'', ev_icon = ''coffee''\<rparr>,
         \<lparr>ev_id = ''2'', ev_title = ''Work'', ev_time = ''14:00'', ev_icon = ''laptop''\<rparr>],
      app_eventToDelete = None\<rparr>"

fun Number_toString :: "nat \<Rightarrow> string" where
  "Number_toString n =
     (if n < 10 then [char_of (48 + n)]
      else Number_toString (n div 10) @ [char_of (48 + n mod 10)])"

declare Number_toString.simps [simp del]

record NewEvent =
  ne_title :: string
  ne_time :: string
  ne_icon :: string

definition saveNewEvent :: "NewEvent \<Rightarrow> nat \<Rightarrow> App \<Rightarrow> App" where
  "saveNewEvent newEvent now s =
     (if \<not> truthy (ne_title newEvent) then s
      else s\<lparr>app_events := app_events s @
             [\<lparr>ev_id = Number_toString now,
               ev_title = ne_title newEvent,
               ev_time = ne_time newEvent,
               ev_icon = (if truthy (ne_icon newEvent) then ne_icon newEvent else ''calendar'')\<rparr>]\<rparr>)"

definition setEventToDelete :: "string option \<Rightarrow> App \<Rightarrow> App" where
  "setEventToDelete x s = s\<lparr>app_eventToDelete := x\<rparr>"

text \<open>
  The states the coordinator can be in: it starts in \<open>initialApp\<close>, and every handler
  takes it from one state to the next. The views call the wardrobe and wishlist mutators
  with any item and any id. The delete button of a drawn event sets the pending deletion
  to that event's id, and the modal's Cancel button clears it.
\<close>

inductive reachable :: "App \<Rightarrow> bool" where
  initial: "reachable initialApp"
| add_wardrobe: "reachable s \<Longrightarrow> reachable (addWardrobeItem item s)"
| delete_wardrobe: "reachable s \<Longrightarrow> reachable (deleteWardrobeItem i s)"
| add_wishlist: "reachable s \<Longrightarrow> reachable (addToWishlist wish s)"
| delete_wishlist: "reachable s \<Longrightarrow> reachable (deleteWishlistItem i s)"
| save_event: "reachable s \<Longrightarrow> reachable (saveNewEvent newEvent now s)"
| ask_delete:
    "reachable s \<Longrightarrow> e \<in> set (app_events s) \<Longrightarrow> reachable (setEventToDelete (Some (ev_id e)) s)"
| cancel_delete: "reachable s \<Longrightarrow> reachable (setEventToDelete None s)"
| confirm_delete: "reachable s \<Longrightarrow> reachable (confirmDeleteEvent s)"

section \<open>AI adapter (geminiService)\<close>

text \<open>
  The external model is outside the program, so its reply is a parameter of every
  operation. The reply either rejects, or resolves to a response whose \<open>text\<close> is
  \<open>undefined\<close> (\<open>None\<close>) or a string. A string is described by what \<open>JSON.parse\<close> makes of
  it: the empty string, a text that is not JSON, or the encoding of a value. Parsed values
  are taken at the TypeScript types the operations declare for them, with the fields the
  code guards against being optional. Where the source leaves the parsed value untyped
  (the \<open>result\<close> of the two outfit operations), or declares \<open>null\<close> as a value (the weekly
  plan), the value may be \<open>null\<close>.

  Every operation returns the pair of its outcome (\<open>Inl\<close>: an exception leaves the
  function; \<open>Inr\<close>: the value it returns) and the number of requests it sent to the
  external model. The prompt built from the arguments goes into the request only and has
  no part in the control flow.
\<close>

datatype js_error = ApiError | NoDataReturned | SyntaxError | TypeError

datatype 'a json_text = EmptyString | Malformed | Encoding 'a

datatype 'a api_outcome = Rejected | Resolved "'a json_text option"

definition ai_generateContent :: "'a api_outcome \<Rightarrow> (js_error + 'a json_text option) \<times> nat" where
  "ai_generateContent oc =
     (case oc of Rejected \<Rightarrow> (Inl ApiError, 1) | Resolved text \<Rightarrow> (Inr text, 1))"

text \<open>The test \<open>if (response.text)\<close>: the text when it is truthy.\<close>

definition truthy_text :: "'a json_text option \<Rightarrow> 'a json_text option" where
  "truthy_text text =
     (case text of None \<Rightarrow> None | Some EmptyString \<Rightarrow> None | Some t \<Rightarrow> Some t)"

fun JSON_parse :: "'a json_text \<Rightarrow> js_error + 'a" where
  "JSON_parse EmptyString = Inl SyntaxError"
| "JSON_parse Malformed = Inl SyntaxError"
| "JSON_parse (Encoding v) = Inr v"

text \<open>\<open>Partial<ClothingItem>\<close>: every field may be absent.\<close>

record PartialClothingItem =
  p_id :: "string option"
  p_imageUrl :: "string option"
  p_category :: "ClothingCategory option"
  p_color :: "string option"
  p_season :: "string option"
  p_description :: "string option"

definition analyze_default :: PartialClothingItem where
  "analyze_default =
     \<lparr>p_id = None, p_imageUrl = None, p_category = Some Other, p_color = Some ''Unknown'',
      p_season = Some ''All'', p_description = Some ''Could not analyze image.''\<rparr>"

definition analyzeClothingItem_try ::
  "string \<Rightarrow> PartialClothingItem api_outcome \<Rightarrow> (js_error + PartialClothingItem) \<times> nat" where
  "analyzeClothingItem_try base64Image oc =
     (case ai_generateContent oc of
        (Inl e, n) \<Rightarrow> (Inl e, n)
      | (Inr text, n) \<Rightarrow>
          (case truthy_text text of
             Some t \<Rightarrow> (JSON_parse t, n)
           | None \<Rightarrow> (Inl NoDataReturned, n)))"

definition analyzeClothingItem ::
  "string \<Rightarrow> PartialClothingItem api_outcome \<Rightarrow> (js_error + PartialClothingItem) \<times> nat" where
  "analyzeClothingItem base64Image oc =
     (case analyzeClothingItem_try base64Image oc of
        (Inl e, n) \<Rightarrow> (Inr analyze_default, n)
      | (Inr v, n) \<Rightarrow> (Inr v, n))"

text \<open>
  The parsed \<open>result\<close> of the two outfit operations is untyped in the source. It is
  \<open>null\<close> (\<open>None\<close>), on which the read of \<open>result.itemIds\<close> throws a \<open>TypeError\<close>, or a
  value that is not \<open>null\<close>, given by the three fields the code reads from it (a parsed
  number, string, boolean or array has none of them). The fields are copied without a
  check; only \<open>vibe\<close> is guarded by \<open>||\<close>.
\<close>

definition generateOutfit_try ::
  "string \<Rightarrow> string \<Rightarrow> Outfit option api_outcome \<Rightarrow> (js_error + Outfit option) \<times> nat" where
  "generateOutfit_try vibe now oc =
     (case ai_generateContent oc of
        (Inl e, n) \<Rightarrow> (Inl e, n)
      | (Inr text, n) \<Rightarrow>
          (case truthy_text text of
             Some t \<Rightarrow>
               (case JSON_parse t of
                  Inl e \<Rightarrow> (Inl e, n)
                | Inr None \<Rightarrow> (Inl TypeError, n)
                | Inr (Some result) \<Rightarrow>
                    (Inr (Some \<lparr>o_id = Some now, o_itemIds = o_itemIds result,
                                o_vibe = Some (string_or (o_vibe result) vibe),
                                o_explanation = o_explanation result\<rparr>), n))
           | None \<Rightarrow> (Inr None, n)))"

text \<open>\<open>now\<close> is \<open>Date.now().toString()\<close>, the clock reading at the time of the call.\<close>

definition generateOutfit ::
  "ClothingItem list \<Rightarrow> string \<Rightarrow> string \<Rightarrow> string \<Rightarrow> Outfit option api_outcome
     \<Rightarrow> (js_error + Outfit option) \<times> nat" where
  "generateOutfit wardrobe weather vibe now oc =
     (if length wardrobe = 0 then (Inr None, 0)
      else
        (case generateOutfit_try vibe now oc of
           (Inl e, n) \<Rightarrow> (Inr None, n)
         | (Inr v, n) \<Rightarrow> (Inr v, n)))"

definition generateOutfitFromImage ::
  "ClothingItem list \<Rightarrow> string \<Rightarrow> string \<Rightarrow> Outfit option api_outcome
     \<Rightarrow> (js_error + Outfit option) \<times> nat" where
  "generateOutfitFromImage wardrobe inspoImageBase64 now oc =
     (if length wardrobe = 0 then (Inr None, 0)
      else
        (case generateOutfit_try ''Inspo Match'' now oc of
           (Inl e, n) \<Rightarrow> (Inr None, n)
         | (Inr v, n) \<Rightarrow> (Inr v, n)))"

text \<open>
  A weekly-plan text that parses encodes \<open>null\<close> (\<open>None\<close>) or an object, given by its
  members as the text lists them; \<open>JSON.parse\<close> builds the object from them, and the
  operation returns what \<open>JSON.parse\<close> returns.
\<close>

type_synonym WeeklyPlanText = "(string \<times> Outfit option) list option"

definition generateWeeklyPlan_try ::
  "WeeklyPlanText api_outcome \<Rightarrow> (js_error + WeeklyPlan option) \<times> nat" where
  "generateWeeklyPlan_try oc =
     (case ai_generateContent oc of
        (Inl e, n) \<Rightarrow> (Inl e, n)
      | (Inr text, n) \<Rightarrow>
          (case truthy_text text of
             Some t \<Rightarrow>
               (case JSON_parse t of
                  Inl e \<Rightarrow> (Inl e, n)
                | Inr v \<Rightarrow> (Inr (map_option object_of_members v), n))
           | None \<Rightarrow> (Inr None, n)))"

definition generateWeeklyPlan ::
  "ClothingItem list \<Rightarrow> string \<Rightarrow> string \<Rightarrow> WeeklyPlanText api_outcome
     \<Rightarrow> (js_error + WeeklyPlan option) \<times> nat" where
  "generateWeeklyPlan wardrobe weather theme oc =
     (if length wardrobe = 0 then (Inr None, 0)
      else
        (case generateWeeklyPlan_try oc of
           (Inl e, n) \<Rightarrow> (Inr None, n)
         | (Inr v, n) \<Rightarrow> (Inr v, n)))"

record Similarity =
  isSimilar :: bool
  s_explanation :: string

definition checkSimilarity_try ::
  "Similarity api_outcome \<Rightarrow> (js_error + Similarity) \<times> nat" where
  "checkSimilarity_try oc =
     (case ai_generateContent oc of
        (Inl e, n) \<Rightarrow> (Inl e, n)
      | (Inr text, n) \<Rightarrow>
          (case truthy_text text of
             Some t \<Rightarrow> (JSON_parse t, n)
           | None \<Rightarrow> (Inr \<lparr>isSimilar = False, s_explanation = ''Go for it!''\<rparr>, n)))"

definition checkSimilarity ::
  "string \<Rightarrow> ClothingItem list \<Rightarrow> Similarity api_outcome \<Rightarrow> (js_error + Similarity) \<times> nat" where
  "checkSimilarity wishlistImageBase64 wardrobe oc =
     (if length wardrobe = 0
      then (Inr \<lparr>isSimilar = False, s_explanation = ''Your wardrobe is empty!''\<rparr>, 0)
      else
        (case checkSimilarity_try oc of
           (Inl e, n) \<Rightarrow>
             (Inr \<lparr>isSimilar = False,
                   s_explanation = ''Couldn't check for duplicates, but trust your gut!''\<rparr>, n)
         | (Inr v, n) \<Rightarrow> (Inr v, n)))"

section \<open>Wardrobe view\<close>

text \<open>
  \<open>handleFileUpload\<close>: \<open>file\<close> is the data URL the reader produced for the chosen file
  (\<open>None\<close>: no file was chosen). The result is the coordinator's state after the handler
  and the alerts it raised. The spinner flag \<open>isAnalyzing\<close> is not part of the model.
\<close>

definition handleFileUpload ::
  "string option \<Rightarrow> string \<Rightarrow> PartialClothingItem api_outcome \<Rightarrow> App \<Rightarrow> App \<times> string list" where
  "handleFileUpload file now oc s =
     (case file of
        None \<Rightarrow> (s, [])
      | Some base64String \<Rightarrow>
          (case fst (analyzeClothingItem base64String oc) of
             Inl e \<Rightarrow> (s, [''Oops! Couldn't scan that item.''])
           | Inr metadata \<Rightarrow>
               (addWardrobeItem
                  \<lparr>ci_id = now,
                   ci_imageUrl = base64String,
                   ci_category = (case p_category metadata of None \<Rightarrow> Other | Some c \<Rightarrow> c),
                   ci_color = string_or (p_color metadata) ''Unknown'',
                   ci_season = string_or (p_season metadata) ''All'',
                   ci_description = string_or (p_description metadata) ''Added from closet''\<rparr>
                  s, [])))"

text \<open>
  \<open>toLowerCase\<close> is the platform's function and a parameter of the filter.
  \<open>includes\<close> is containment of a contiguous substring.
\<close>

definition js_includes :: "string \<Rightarrow> string \<Rightarrow> bool" where
  "js_includes s t = sublist t s"

text \<open>\<open>activeCategory\<close> has type \<open>ClothingCategory | 'All'\<close>.\<close>

datatype CategoryFilter = All | Category ClothingCategory

definition matchCat :: "CategoryFilter \<Rightarrow> ClothingItem \<Rightarrow> bool" where
  "matchCat activeCategory item =
     (case activeCategory of All \<Rightarrow> True | Category c \<Rightarrow> ci_category item = c)"

definition matchColor :: "(string \<Rightarrow> string) \<Rightarrow> string option \<Rightarrow> ClothingItem \<Rightarrow> bool" where
  "matchColor toLowerCase activeColor item =
     (case activeColor of
        None \<Rightarrow> True
      | Some c \<Rightarrow>
          if truthy c then js_includes (toLowerCase (ci_color item)) (toLowerCase c) else True)"

definition filteredItems ::
  "(string \<Rightarrow> string) \<Rightarrow> ClothingItem list \<Rightarrow> CategoryFilter \<Rightarrow> string option
     \<Rightarrow> ClothingItem list" where
  "filteredItems toLowerCase items activeCategory activeColor =
     filter (\<lambda>item. matchCat activeCategory item \<and> matchColor toLowerCase activeColor item) items"

section \<open>Stylist view\<close>

text \<open>
  \<open>renderOutfitVisual\<close> resolves each id to the first wardrobe item that has it, drops the
  ids that resolve to nothing, and sorts by the priority table. \<open>Array.prototype.sort\<close> is
  stable, as is \<open>sort_key\<close>. What is drawn is one of three layouts.
\<close>

definition categoryOrder :: "(ClothingCategory \<times> nat) list" where
  "categoryOrder =
     [(Top, 1), (OnePiece, 2), (Outerwear, 3), (Bottom, 4), (Shoes, 5), (Accessory, 6), (Other, 7)]"

text \<open>\<open>categoryOrder[c] || 99\<close>\<close>

definition priority :: "ClothingCategory \<Rightarrow> nat" where
  "priority c =
     (case map_of categoryOrder c of None \<Rightarrow> 99 | Some n \<Rightarrow> if n = 0 then 99 else n)"

definition resolveItems :: "ClothingItem list \<Rightarrow> string list \<Rightarrow> ClothingItem list" where
  "resolveItems wardrobe itemIds =
     List.map_filter (\<lambda>i. find (\<lambda>w. ci_id w = i) wardrobe) itemIds"

datatype OutfitVisual =
    CompactGrid "ClothingItem list"
  | NoItemsFound
  | Masonry "ClothingItem list"

definition renderOutfitVisual :: "ClothingItem list \<Rightarrow> string list \<Rightarrow> bool \<Rightarrow> OutfitVisual" where
  "renderOutfitVisual wardrobe itemIds compact_layout =
     (let items = sort_key (\<lambda>a. priority (ci_category a)) (resolveItems wardrobe itemIds)
      in if compact_layout then CompactGrid (take 4 items)
         else if length items = 0 then NoItemsFound
         else Masonry items)"

fun renderedItems :: "OutfitVisual \<Rightarrow> ClothingItem list" where
  "renderedItems (CompactGrid items) = items"
| "renderedItems NoItemsFound = []"
| "renderedItems (Masonry items) = items"

datatype Mode = SINGLE | WEEKLY | INSPO

text \<open>\<open>s.split(' ')[0]\<close>\<close>

definition firstWord :: "string \<Rightarrow> string" where
  "firstWord s = takeWhile (\<lambda>c. c \<noteq> CHR '' '') s"

record DaySection =
  ds_day :: string
  ds_badge :: string
  ds_visual :: OutfitVisual
  ds_explanation :: "string option"

text \<open>
  The section of one entry of the plan. A day whose value is \<open>null\<close> throws at the read of
  \<open>outfit.itemIds\<close>, and a day without \<open>itemIds\<close> throws in \<open>renderOutfitVisual\<close> at
  \<open>itemIds.map\<close>.
\<close>

definition renderDaySection ::
  "ClothingItem list \<Rightarrow> Mode \<Rightarrow> string \<Rightarrow> string \<times> Outfit option \<Rightarrow> js_error + DaySection" where
  "renderDaySection wardrobe mode vibeInput entry =
     (case entry of
        (day, None) \<Rightarrow> Inl TypeError
      | (day, Some outfit) \<Rightarrow>
          (case o_itemIds outfit of
             None \<Rightarrow> Inl TypeError
           | Some itemIds \<Rightarrow>
               Inr \<lparr>ds_day = day,
                    ds_badge = (if mode = WEEKLY then firstWord vibeInput else ''Plan''),
                    ds_visual = renderOutfitVisual wardrobe itemIds True,
                    ds_explanation = o_explanation outfit\<rparr>))"

text \<open>\<open>xs.map(f)\<close> where \<open>f\<close> may throw: the first exception ends the whole map.\<close>

fun map_throwing :: "('a \<Rightarrow> js_error + 'b) \<Rightarrow> 'a list \<Rightarrow> js_error + 'b list" where
  "map_throwing f [] = Inr []"
| "map_throwing f (x # xs) =
     (case f x of
        Inl e \<Rightarrow> Inl e
      | Inr y \<Rightarrow> (case map_throwing f xs of Inl e \<Rightarrow> Inl e | Inr ys \<Rightarrow> Inr (y # ys)))"

text \<open>
  The weekly part of the Stylist's render: nothing unless a plan is present and no
  request is in flight; otherwise one section per entry of \<open>Object.entries(weeklyPlan)\<close>,
  or the exception that drawing one of them throws.
\<close>

definition renderWeeklyPlan ::
  "ClothingItem list \<Rightarrow> Mode \<Rightarrow> string \<Rightarrow> bool \<Rightarrow> WeeklyPlan option
     \<Rightarrow> js_error + DaySection list" where
  "renderWeeklyPlan wardrobe mode vibeInput isLoading weeklyPlan =
     (case weeklyPlan of
        None \<Rightarrow> Inr []
      | Some plan \<Rightarrow>
          if isLoading then Inr []
          else map_throwing (renderDaySection wardrobe mode vibeInput) (Object_entries plan))"

section \<open>Weather widget\<close>

datatype Icon = Sun | Moon | Cloud | Rain

text \<open>The four greetings, each a pair of text and advice in the source.\<close>

datatype Greeting = Chilly | Crisp | Beautiful | Hot

definition getGreeting :: "js_number \<Rightarrow> Greeting" where
  "getGreeting temp =
     (if js_lt temp (Finite 10) then Chilly
      else if js_lt temp (Finite 20) then Crisp
      else if js_lt temp (Finite 25) then Beautiful
      else Hot)"

fun Math_round :: "js_number \<Rightarrow> js_number" where
  "Math_round (Finite a) = Finite (of_int \<lfloor>a + 1 / 2\<rfloor>)"
| "Math_round x = x"

definition weatherIcon :: "WeatherData \<Rightarrow> Icon" where
  "weatherIcon w =
     (if js_le (weatherCode w) (Finite 3) then (if isDay w then Sun else Moon)
      else if js_le (weatherCode w) (Finite 60) then Cloud
      else Rain)"

datatype WeatherView = Skeleton | Fallback | Card js_number Greeting Icon

definition WeatherWidget :: "WeatherData option \<Rightarrow> bool \<Rightarrow> string option \<Rightarrow> WeatherView" where
  "WeatherWidget weather loading err =
     (if loading then Skeleton
      else if truthy_opt err then Fallback
      else (case weather of
              None \<Rightarrow> Fallback
            | Some w \<Rightarrow> Card (Math_round (temperature w)) (getGreeting (temperature w)) (weatherIcon w)))"

section \<open>Wishlist view\<close>

record WishlistForm =
  f_name :: string
  f_price :: string
  f_brand :: string
  f_previewImage :: "string option"
  f_analysisResult :: "(bool \<times> string) option"

text \<open>
  \<open>handleAdd\<close>: \<open>parseFloat\<close> is the platform's function and a parameter here. The result
  is the form and the coordinator's state after the handler, and the alerts it raised.
\<close>

definition handleAdd ::
  "(string \<Rightarrow> js_number) \<Rightarrow> string \<Rightarrow> WishlistForm \<Rightarrow> App \<Rightarrow> WishlistForm \<times> App \<times> string list" where
  "handleAdd parseFloat now form s =
     (if \<not> truthy (f_name form) \<or> \<not> truthy (f_price form) \<or> \<not> truthy_opt (f_previewImage form)
      then (form, s, if \<not> truthy_opt (f_previewImage form) then [''Please upload a photo!''] else [])
      else
        (case f_previewImage form of
           None \<Rightarrow> (form, s, [])
         | Some previewImage \<Rightarrow>
             (\<lparr>f_name = '''', f_price = '''', f_brand = '''', f_previewImage = None,
               f_analysisResult = None\<rparr>,
              addToWishlist
                \<lparr>wi_id = now,
                 wi_name = f_name form @ '' '' @
                   (if truthy (f_brand form) then ''('' @ f_brand form @ '')'' else ''''),
                 wi_price = number_or (parseFloat (f_price form)) (Finite 0),
                 wi_imageUrl = previewImage\<rparr> s,
              [])))"

section \<open>Outcomes of the external call, and sample data\<close>

text \<open>
  The outcomes in which the external call gives the program nothing to use: the request
  rejects, the response has no text or an empty one, or the text is not JSON.
\<close>

fun call_failed :: "'a api_outcome \<Rightarrow> bool" where
  "call_failed Rejected = True"
| "call_failed (Resolved None) = True"
| "call_failed (Resolved (Some EmptyString)) = True"
| "call_failed (Resolved (Some Malformed)) = True"
| "call_failed (Resolved (Some (Encoding v))) = False"

text \<open>Values for the worked examples.\<close>

definition sampleItem :: "string \<Rightarrow> ClothingCategory \<Rightarrow> string \<Rightarrow> ClothingItem" where
  "sampleItem i c col =
     \<lparr>ci_id = i, ci_imageUrl = ''data:image/jpeg;base64,AAAA'', ci_category = c, ci_color = col,
      ci_season = ''All'', ci_description = ''sample''\<rparr>"

definition sampleOutfit :: "string list \<Rightarrow> Outfit" where
  "sampleOutfit ids =
     \<lparr>o_id = None, o_itemIds = Some ids, o_vibe = None, o_explanation = Some ''sample''\<rparr>"

definition sampleEvent :: "string \<Rightarrow> string \<Rightarrow> string \<Rightarrow> ScheduleEvent" where
  "sampleEvent i title time = \<lparr>ev_id = i, ev_title = title, ev_time = time, ev_icon = ''*''\<rparr>"

definition sampleApp :: "ClothingItem list \<Rightarrow> ScheduleEvent list \<Rightarrow> string option \<Rightarrow> App" where
  "sampleApp ws es pending =
     \<lparr>app_wardrobe = ws, app_wishlist = [], app_events = es, app_eventToDelete = pending\<rparr>"

text \<open>A case folding of the letters A to Z, the other characters unchanged.\<close>

definition lower_char :: "char \<Rightarrow> char" where
  "lower_char c =
     (let n = (of_char c :: nat) in if 65 \<le> n \<and> n \<le> 90 then char_of (n + 32) else c)"

definition asciiToLowerCase :: "string \<Rightarrow> string" where
  "asciiToLowerCase s = map lower_char s"

text \<open>
  The order in which a list of keys mentions each key for the first time.
\<close>

fun first_listed :: "string list \<Rightarrow> string list" where
  "first_listed [] = []"
| "first_listed (k # ks) = k # removeAll k (first_listed ks)"

text \<open>A reading of two price texts; every other text is not a number.\<close>

definition sampleParseFloat :: "string \<Rightarrow> js_number" where
  "sampleParseFloat s =
     (if s = ''40'' then Finite 40 else if s = ''12.5'' then Finite (25 / 2) else NaN)"

section \<open>Properties of the AI adapter\<close>

lemmas adapter_defs =
  analyzeClothingItem_def analyzeClothingItem_try_def generateOutfit_def generateOutfit_try_def
  generateOutfitFromImage_def generateWeeklyPlan_def generateWeeklyPlan_try_def
  checkSimilarity_def checkSimilarity_try_def ai_generateContent_def truthy_text_def

lemma analyzeClothingItem_parsed:
  "analyzeClothingItem img (Resolved (Some (Encoding m))) = (Inr m, 1)"
  by (simp add: adapter_defs)

lemma analyzeClothingItem_failed:
  "call_failed oc \<Longrightarrow> analyzeClothingItem img oc = (Inr analyze_default, 1)"
  by (cases oc rule: call_failed.cases) (simp_all add: adapter_defs)

lemma analyzeClothingItem_returns: "\<exists>v. fst (analyzeClothingItem img oc) = Inr v"
  by (cases oc rule: call_failed.cases) (simp_all add: adapter_defs)

lemma generateOutfit_failed:
  "call_failed oc \<Longrightarrow> fst (generateOutfit wardrobe weather vibe now oc) = Inr None"
  by (cases oc rule: call_failed.cases) (simp_all add: adapter_defs)

lemma generateOutfit_parsed:
  "fst (generateOutfit (w # ws) weather vibe now (Resolved (Some (Encoding (Some r))))) =
     Inr (Some \<lparr>o_id = Some now, o_itemIds = o_itemIds r,
                o_vibe = Some (string_or (o_vibe r) vibe),
                o_explanation = o_explanation r\<rparr>)"
  by (simp add: adapter_defs)

lemma generateOutfit_null:
  "fst (generateOutfit wardrobe weather vibe now (Resolved (Some (Encoding None)))) = Inr None"
  by (simp add: adapter_defs)

lemma generateOutfit_returns: "\<exists>v. fst (generateOutfit wardrobe weather vibe now oc) = Inr v"
  by (cases oc rule: call_failed.cases) (simp_all add: adapter_defs split: option.splits)

lemma generateOutfitFromImage_failed:
  "call_failed oc \<Longrightarrow> fst (generateOutfitFromImage wardrobe img now oc) = Inr None"
  by (cases oc rule: call_failed.cases) (simp_all add: adapter_defs)

lemma generateOutfitFromImage_parsed:
  "fst (generateOutfitFromImage (w # ws) img now (Resolved (Some (Encoding (Some r))))) =
     Inr (Some \<lparr>o_id = Some now, o_itemIds = o_itemIds r,
                o_vibe = Some (string_or (o_vibe r) ''Inspo Match''),
                o_explanation = o_explanation r\<rparr>)"
  by (simp add: adapter_defs)

lemma generateOutfitFromImage_null:
  "fst (generateOutfitFromImage wardrobe img now (Resolved (Some (Encoding None)))) = Inr None"
  by (simp add: adapter_defs)

lemma generateOutfitFromImage_returns:
  "\<exists>v. fst (generateOutfitFromImage wardrobe img now oc) = Inr v"
  by (cases oc rule: call_failed.cases) (simp_all add: adapter_defs split: option.splits)

lemma generateWeeklyPlan_failed:
  "call_failed oc \<Longrightarrow> fst (generateWeeklyPlan wardrobe weather theme oc) = Inr None"
  by (cases oc rule: call_failed.cases) (simp_all add: adapter_defs)

lemma generateWeeklyPlan_parsed:
  "fst (generateWeeklyPlan (w # ws) weather theme (Resolved (Some (Encoding plan)))) =
     Inr (map_option object_of_members plan)"
  by (simp add: adapter_defs)

lemma generateWeeklyPlan_returns:
  "\<exists>v. fst (generateWeeklyPlan wardrobe weather theme oc) = Inr v"
  by (cases oc rule: call_failed.cases) (simp_all add: adapter_defs)

lemma checkSimilarity_failed:
  "call_failed oc \<Longrightarrow>
     fst (checkSimilarity img (w # ws) oc) \<in>
       {Inr \<lparr>isSimilar = False, s_explanation = ''Go for it!''\<rparr>,
        Inr \<lparr>isSimilar = False,
             s_explanation = ''Couldn't check for duplicates, but trust your gut!''\<rparr>}"
  by (cases oc rule: call_failed.cases) (simp_all add: adapter_defs)

lemma checkSimilarity_parsed:
  "fst (checkSimilarity img (w # ws) (Resolved (Some (Encoding v)))) = Inr v"
  by (simp add: adapter_defs)

lemma checkSimilarity_returns: "\<exists>v. fst (checkSimilarity img wardrobe oc) = Inr v"
  by (cases oc rule: call_failed.cases) (simp_all add: adapter_defs)

text \<open>With a wardrobe that is not empty, each guarded operation sends exactly one request.\<close>

lemma nonempty_wardrobe_one_request:
  "snd (generateOutfit (w # ws) weather vibe now oc) = 1"
  "snd (generateOutfitFromImage (w # ws) img now oc) = 1"
  "snd (generateWeeklyPlan (w # ws) weather theme ocW) = 1"
  "snd (checkSimilarity img (w # ws) ocS) = 1"
  by (auto simp: adapter_defs split: api_outcome.splits option.splits sum.splits)

text \<open>
  C1 (as amended). No exception leaves any of the five operations, whatever the external
  call does. When the call rejects, gives no text or an empty one, or gives a text that is
  not JSON, each operation returns a fixed default: the default classification, \<open>null\<close> for
  the two outfit operations and the weekly plan, and \<open>isSimilar = false\<close> with one of two
  fixed messages for the similarity check. When the text parses, classification, weekly
  plan and similarity check return the parsed value as it is, fields that are missing
  included, and no default replaces it. The two outfit operations build the outfit from
  the fields of the parsed value, replacing only an absent or empty vibe; when the parsed
  value is \<open>null\<close>, the read of its fields throws inside the \<open>try\<close> and they return the
  default \<open>null\<close>.
\<close>

theorem adapter_catches_failures:
  "(\<exists>v. fst (analyzeClothingItem img ocA) = Inr v)
   \<and> (\<exists>v. fst (generateOutfit wardrobe weather vibe now ocB) = Inr v)
   \<and> (\<exists>v. fst (generateOutfitFromImage wardrobe img now ocB) = Inr v)
   \<and> (\<exists>v. fst (generateWeeklyPlan wardrobe weather theme ocC) = Inr v)
   \<and> (\<exists>v. fst (checkSimilarity img wardrobe ocD) = Inr v)
   \<and> (call_failed ocA \<longrightarrow> fst (analyzeClothingItem img ocA) = Inr analyze_default)
   \<and> (call_failed ocB \<longrightarrow> fst (generateOutfit wardrobe weather vibe now ocB) = Inr None)
   \<and> (call_failed ocB \<longrightarrow> fst (generateOutfitFromImage wardrobe img now ocB) = Inr None)
   \<and> (call_failed ocC \<longrightarrow> fst (generateWeeklyPlan wardrobe weather theme ocC) = Inr None)
   \<and> (call_failed ocD \<longrightarrow>
        fst (checkSimilarity img (w # ws) ocD) \<in>
          {Inr \<lparr>isSimilar = False, s_explanation = ''Go for it!''\<rparr>,
           Inr \<lparr>isSimilar = False,
                s_explanation = ''Couldn't check for duplicates, but trust your gut!''\<rparr>})
   \<and> fst (analyzeClothingItem img (Resolved (Some (Encoding m)))) = Inr m
   \<and> fst (generateOutfit (w # ws) weather vibe now (Resolved (Some (Encoding (Some r))))) =
        Inr (Some \<lparr>o_id = Some now, o_itemIds = o_itemIds r,
                   o_vibe = Some (string_or (o_vibe r) vibe),
                   o_explanation = o_explanation r\<rparr>)
   \<and> fst (generateOutfitFromImage (w # ws) img now (Resolved (Some (Encoding (Some r))))) =
        Inr (Some \<lparr>o_id = Some now, o_itemIds = o_itemIds r,
                   o_vibe = Some (string_or (o_vibe r) ''Inspo Match''),
                   o_explanation = o_explanation r\<rparr>)
   \<and> fst (generateOutfit wardrobe weather vibe now (Resolved (Some (Encoding None)))) = Inr None
   \<and> fst (generateOutfitFromImage wardrobe img now (Resolved (Some (Encoding None)))) = Inr None
   \<and> fst (generateWeeklyPlan (w # ws) weather theme (Resolved (Some (Encoding plan)))) =
        Inr (map_option object_of_members plan)
   \<and> fst (checkSimilarity img (w # ws) (Resolved (Some (Encoding sim)))) = Inr sim"
  using analyzeClothingItem_returns [of img ocA]
    generateOutfit_returns [of wardrobe weather vibe now ocB]
    generateOutfitFromImage_returns [of wardrobe img now ocB]
    generateWeeklyPlan_returns [of wardrobe weather theme ocC]
    checkSimilarity_returns [of img wardrobe ocD]
    analyzeClothingItem_failed [of ocA img]
    generateOutfit_failed [of ocB wardrobe weather vibe now]
    generateOutfitFromImage_failed [of ocB wardrobe img now]
    generateWeeklyPlan_failed [of ocC wardrobe weather theme]
    checkSimilarity_failed [of ocD img w ws]
    analyzeClothingItem_parsed [of img m]
    generateOutfit_parsed [of w ws weather vibe now r]
    generateOutfitFromImage_parsed [of w ws img now r]
    generateOutfit_null [of wardrobe weather vibe now]
    generateOutfitFromImage_null [of wardrobe img now]
    generateWeeklyPlan_parsed [of w ws weather theme plan]
    checkSimilarity_parsed [of img w ws sim]
  by simp

theorem adapter_catches_failures_witness:
  "call_failed (Rejected :: PartialClothingItem api_outcome)
   \<and> call_failed (Resolved None :: Outfit option api_outcome)
   \<and> call_failed (Resolved (Some Malformed) :: WeeklyPlanText api_outcome)
   \<and> call_failed (Resolved (Some EmptyString) :: Similarity api_outcome)
   \<and> fst (analyzeClothingItem ''data:image/jpeg;base64,AAAA'' Rejected) = Inr analyze_default
   \<and> fst (generateOutfit [sampleItem ''1'' Top ''Black''] ''clear skies'' ''City Walk''
            ''1700000000000'' (Resolved None)) = Inr None
   \<and> fst (generateOutfitFromImage [sampleItem ''1'' Top ''Black''] ''data:image/jpeg;base64,AAAA''
            ''1700000000000'' (Resolved None)) = Inr None
   \<and> fst (generateWeeklyPlan [sampleItem ''1'' Top ''Black''] ''clear skies'' ''Busy Week''
            (Resolved (Some Malformed))) = Inr None
   \<and> fst (checkSimilarity ''data:image/jpeg;base64,AAAA'' [sampleItem ''1'' Top ''Black'']
            (Resolved (Some EmptyString))) =
       Inr \<lparr>isSimilar = False, s_explanation = ''Go for it!''\<rparr>"
  using adapter_catches_failures
    [where img = "''data:image/jpeg;base64,AAAA''" and ocA = Rejected
       and wardrobe = "[sampleItem ''1'' Top ''Black'']" and weather = "''clear skies''"
       and vibe = "''City Walk''" and now = "''1700000000000''" and ocB = "Resolved None"
       and theme = "''Busy Week''" and ocC = "Resolved (Some Malformed)"
       and ocD = "Resolved (Some EmptyString)" and w = "sampleItem ''1'' Top ''Black''"
       and ws = "[]"]
  by (simp add: adapter_defs)

theorem missing_field_counterexample:
  "fst (analyzeClothingItem ''data:image/jpeg;base64,AAAA''
     (Resolved (Some (Encoding
        \<lparr>p_id = None, p_imageUrl = None, p_category = Some Top, p_color = None,
         p_season = None, p_description = None\<rparr>)))) =
     Inr \<lparr>p_id = None, p_imageUrl = None, p_category = Some Top, p_color = None,
          p_season = None, p_description = None\<rparr>
   \<and> \<lparr>p_id = None, p_imageUrl = None, p_category = Some Top, p_color = None,
       p_season = None, p_description = None\<rparr> \<noteq> analyze_default"
  by (simp add: adapter_defs analyze_default_def)

text \<open>
  C10. With an empty wardrobe, \<open>generateOutfit\<close>, \<open>generateOutfitFromImage\<close> and
  \<open>generateWeeklyPlan\<close> return \<open>null\<close> and \<open>checkSimilarity\<close> returns \<open>isSimilar = false\<close>
  with the explanation "Your wardrobe is empty!", each without a request to the external
  model, whatever that model would have answered.
\<close>

theorem empty_wardrobe_returns_without_request:
  "generateOutfit [] weather vibe now oc = (Inr None, 0)
   \<and> generateOutfitFromImage [] inspoImageBase64 now oc = (Inr None, 0)
   \<and> generateWeeklyPlan [] weather theme ocW = (Inr None, 0)
   \<and> checkSimilarity wishlistImageBase64 [] ocS =
       (Inr \<lparr>isSimilar = False, s_explanation = ''Your wardrobe is empty!''\<rparr>, 0)"
  by (simp add: generateOutfit_def generateOutfitFromImage_def generateWeeklyPlan_def
      checkSimilarity_def)

section \<open>Properties of the wardrobe\<close>

text \<open>
  C2. If the external classification call fails (it rejects, or returns no text, an empty
  text or a text that does not parse), the photo upload adds an item with category
  \<open>Other\<close>, color "Unknown" and season "All" to the wardrobe.
\<close>

theorem failed_classification_item:
  assumes "call_failed oc"
  shows "handleFileUpload (Some img) now oc s =
       (s\<lparr>app_wardrobe :=
            \<lparr>ci_id = now, ci_imageUrl = img, ci_category = Other, ci_color = ''Unknown'',
             ci_season = ''All'', ci_description = ''Could not analyze image.''\<rparr>
            # app_wardrobe s\<rparr>, [])"
proof -
  from assms have "fst (analyzeClothingItem img oc) = Inr analyze_default"
    by (simp add: analyzeClothingItem_failed)
  then show ?thesis
    by (simp add: handleFileUpload_def addWardrobeItem_def analyze_default_def string_or_def
        truthy_def)
qed

theorem failed_classification_item_witness:
  "call_failed (Rejected :: PartialClothingItem api_outcome)
   \<and> call_failed (Resolved None :: PartialClothingItem api_outcome)
   \<and> app_wardrobe (fst (handleFileUpload (Some ''data:image/jpeg;base64,AAAA'') ''1700000000000''
        Rejected (sampleApp [sampleItem ''1'' Top ''Black''] [] None))) =
       [\<lparr>ci_id = ''1700000000000'', ci_imageUrl = ''data:image/jpeg;base64,AAAA'',
         ci_category = Other, ci_color = ''Unknown'', ci_season = ''All'',
         ci_description = ''Could not analyze image.''\<rparr>,
        sampleItem ''1'' Top ''Black'']
   \<and> app_wardrobe (fst (handleFileUpload (Some ''data:image/jpeg;base64,AAAA'') ''1700000000000''
        (Resolved None) (sampleApp [sampleItem ''1'' Top ''Black''] [] None))) =
       [\<lparr>ci_id = ''1700000000000'', ci_imageUrl = ''data:image/jpeg;base64,AAAA'',
         ci_category = Other, ci_color = ''Unknown'', ci_season = ''All'',
         ci_description = ''Could not analyze image.''\<rparr>,
        sampleItem ''1'' Top ''Black'']"
  using failed_classification_item [of Rejected "''data:image/jpeg;base64,AAAA''"
      "''1700000000000''" "sampleApp [sampleItem ''1'' Top ''Black''] [] None"]
    failed_classification_item [of "Resolved None" "''data:image/jpeg;base64,AAAA''"
      "''1700000000000''" "sampleApp [sampleItem ''1'' Top ''Black''] [] None"]
  by (simp add: sampleApp_def)

text \<open>
  C4. After a classification response that parses, the upload puts the new item at the
  head of the wardrobe, and the items that were there follow it, unchanged and in their
  order; so does \<open>addWardrobeItem\<close> for any item.
\<close>

theorem upload_prepends_new_item:
  "app_wardrobe (addWardrobeItem item s) = item # app_wardrobe s
   \<and> handleFileUpload (Some img) now (Resolved (Some (Encoding m))) s =
       (s\<lparr>app_wardrobe :=
            \<lparr>ci_id = now, ci_imageUrl = img,
             ci_category = (case p_category m of None \<Rightarrow> Other | Some c \<Rightarrow> c),
             ci_color = string_or (p_color m) ''Unknown'',
             ci_season = string_or (p_season m) ''All'',
             ci_description = string_or (p_description m) ''Added from closet''\<rparr>
            # app_wardrobe s\<rparr>, [])"
  by (simp add: handleFileUpload_def analyzeClothingItem_parsed addWardrobeItem_def)

lemma Number_toString_nonempty: "Number_toString n \<noteq> []"
  by (subst Number_toString.simps) simp

text \<open>
  In every state the coordinator can reach, the events have ids that are not empty, and so
  is the pending deletion when there is one.
\<close>

lemma reachable_ids_nonempty:
  "reachable s \<Longrightarrow>
     (\<forall>e \<in> set (app_events s). ev_id e \<noteq> []) \<and> (\<forall>i. app_eventToDelete s = Some i \<longrightarrow> i \<noteq> [])"
proof (induction rule: reachable.induct)
  case initial
  show ?case by (simp add: initialApp_def)
next
  case (save_event s newEvent now)
  then show ?case by (auto simp: saveNewEvent_def Number_toString_nonempty)
next
  case (confirm_delete s)
  then show ?case by (auto simp: confirmDeleteEvent_def split: option.splits)
qed (auto simp: addWardrobeItem_def deleteWardrobeItem_def addToWishlist_def
       deleteWishlistItem_def setEventToDelete_def)

lemma reachable_pending_truthy:
  "reachable s \<Longrightarrow> app_eventToDelete s = Some i \<Longrightarrow> truthy i"
  using reachable_ids_nonempty [of s] by (simp add: truthy_def)

text \<open>
  C3. Deletion removes the items with the given identifier and no other: no item with that
  identifier is left, and the items with another identifier are the same, in the same
  order, before and after. This holds of wardrobe and wishlist deletion for every state
  and identifier, and of schedule-event deletion for the pending identifier in every state
  the coordinator can reach.
\<close>

theorem delete_removes_matching_items:
  "i \<notin> ci_id ` set (app_wardrobe (deleteWardrobeItem i s))
   \<and> filter (\<lambda>x. ci_id x \<noteq> i) (app_wardrobe (deleteWardrobeItem i s)) =
       filter (\<lambda>x. ci_id x \<noteq> i) (app_wardrobe s)
   \<and> subseq (app_wardrobe (deleteWardrobeItem i s)) (app_wardrobe s)
   \<and> i \<notin> wi_id ` set (app_wishlist (deleteWishlistItem i s))
   \<and> filter (\<lambda>x. wi_id x \<noteq> i) (app_wishlist (deleteWishlistItem i s)) =
       filter (\<lambda>x. wi_id x \<noteq> i) (app_wishlist s)
   \<and> subseq (app_wishlist (deleteWishlistItem i s)) (app_wishlist s)
   \<and> (reachable s \<and> app_eventToDelete s = Some i \<longrightarrow>
        i \<notin> ev_id ` set (app_events (confirmDeleteEvent s))
        \<and> filter (\<lambda>x. ev_id x \<noteq> i) (app_events (confirmDeleteEvent s)) =
            filter (\<lambda>x. ev_id x \<noteq> i) (app_events s)
        \<and> subseq (app_events (confirmDeleteEvent s)) (app_events s))"
proof -
  have "truthy i" if "reachable s" "app_eventToDelete s = Some i"
    using that by (rule reachable_pending_truthy)
  then show ?thesis
    by (auto simp: deleteWardrobeItem_def deleteWishlistItem_def confirmDeleteEvent_def)
qed

theorem delete_removes_matching_items_witness:
  "reachable (setEventToDelete (Some ''1'') initialApp)
   \<and> app_eventToDelete (setEventToDelete (Some ''1'') initialApp) = Some ''1''
   \<and> app_events (confirmDeleteEvent (setEventToDelete (Some ''1'') initialApp)) =
       [\<lparr>ev_id = ''2'', ev_title = ''Work'', ev_time = ''14:00'', ev_icon = ''laptop''\<rparr>]"
proof -
  have "\<lparr>ev_id = ''1'', ev_title = ''Coffee Date'', ev_time = ''10:00'', ev_icon = ''coffee''\<rparr>
          \<in> set (app_events initialApp)"
    by (simp add: initialApp_def)
  from reachable.ask_delete [OF reachable.initial this]
  have r: "reachable (setEventToDelete (Some ''1'') initialApp)" by simp
  with delete_removes_matching_items [of "''1''" "setEventToDelete (Some ''1'') initialApp"]
  show ?thesis
    by (simp add: confirmDeleteEvent_def setEventToDelete_def initialApp_def truthy_def)
qed

text \<open>
  C5. The category filter and the color filter are each idempotent, and so is their
  combination. Applying both gives the intersection of what each gives alone: as sets, as
  the list of the category filter's results that the color filter also yields, and as either
  filter applied to the result of the other. This holds whatever case folding
  \<open>toLowerCase\<close> is.
\<close>

theorem filters_idempotent_and_compose:
  "filteredItems toLowerCase (filteredItems toLowerCase items activeCategory None) activeCategory None =
     filteredItems toLowerCase items activeCategory None
   \<and> filteredItems toLowerCase (filteredItems toLowerCase items All activeColor) All activeColor =
     filteredItems toLowerCase items All activeColor
   \<and> filteredItems toLowerCase (filteredItems toLowerCase items activeCategory activeColor) activeCategory activeColor =
     filteredItems toLowerCase items activeCategory activeColor
   \<and> set (filteredItems toLowerCase items activeCategory activeColor) =
     set (filteredItems toLowerCase items activeCategory None) \<inter> set (filteredItems toLowerCase items All activeColor)
   \<and> filteredItems toLowerCase items activeCategory activeColor =
     filter (\<lambda>item. item \<in> set (filteredItems toLowerCase items All activeColor))
       (filteredItems toLowerCase items activeCategory None)
   \<and> filteredItems toLowerCase items activeCategory activeColor =
     filteredItems toLowerCase (filteredItems toLowerCase items activeCategory None) All activeColor
   \<and> filteredItems toLowerCase items activeCategory activeColor =
     filteredItems toLowerCase (filteredItems toLowerCase items All activeColor) activeCategory None"
  by (auto simp: filteredItems_def matchCat_def matchColor_def intro: filter_cong)

theorem filters_idempotent_and_compose_witness:
  "filteredItems asciiToLowerCase
     [sampleItem ''3'' Shoes ''White'', sampleItem ''1'' Top ''Navy Blue'',
      sampleItem ''2'' Top ''Black'', sampleItem ''4'' Bottom ''Light blue'']
     (Category Top) (Some ''Blue'') = [sampleItem ''1'' Top ''Navy Blue'']
   \<and> filteredItems asciiToLowerCase [sampleItem ''1'' Top ''Navy Blue''] (Category Top) (Some ''Blue'') =
       [sampleItem ''1'' Top ''Navy Blue'']"
proof -
  have both: "filteredItems asciiToLowerCase
     [sampleItem ''3'' Shoes ''White'', sampleItem ''1'' Top ''Navy Blue'',
      sampleItem ''2'' Top ''Black'', sampleItem ''4'' Bottom ''Light blue'']
     (Category Top) (Some ''Blue'') = [sampleItem ''1'' Top ''Navy Blue'']"
    by code_simp
  from filters_idempotent_and_compose
      [of asciiToLowerCase "[sampleItem ''3'' Shoes ''White'', sampleItem ''1'' Top ''Navy Blue'',
            sampleItem ''2'' Top ''Black'', sampleItem ''4'' Bottom ''Light blue'']"
          "Category Top" "Some ''Blue''"]
  have "filteredItems asciiToLowerCase
     (filteredItems asciiToLowerCase
       [sampleItem ''3'' Shoes ''White'', sampleItem ''1'' Top ''Navy Blue'',
        sampleItem ''2'' Top ''Black'', sampleItem ''4'' Bottom ''Light blue'']
       (Category Top) (Some ''Blue'')) (Category Top) (Some ''Blue'') =
     filteredItems asciiToLowerCase
       [sampleItem ''3'' Shoes ''White'', sampleItem ''1'' Top ''Navy Blue'',
        sampleItem ''2'' Top ''Black'', sampleItem ''4'' Bottom ''Light blue'']
       (Category Top) (Some ''Blue'')"
    by blast
  with both show ?thesis by simp
qed

section \<open>Properties of the stylist\<close>

lemma priority_values:
  "map priority [Top, OnePiece, Outerwear, Bottom, Shoes, Accessory, Other] = [1, 2, 3, 4, 5, 6, 7]"
  by (simp add: priority_def categoryOrder_def)

lemma priority_inj: "priority a = priority b \<longleftrightarrow> a = b"
  by (cases a; cases b) (simp_all add: priority_def categoryOrder_def)

lemma renderedItems_full:
  "renderedItems (renderOutfitVisual wardrobe itemIds False) =
     sort_key (\<lambda>a. priority (ci_category a)) (resolveItems wardrobe itemIds)"
  by (simp add: renderOutfitVisual_def Let_def)

lemma find_id: "find (\<lambda>w. ci_id w = i) wardrobe = Some x \<Longrightarrow> ci_id x = i \<and> x \<in> set wardrobe"
  by (induction wardrobe) (auto split: if_splits)

lemma find_None_iff_id: "find (\<lambda>w. ci_id w = i) wardrobe = None \<longleftrightarrow> i \<notin> ci_id ` set wardrobe"
  by (induction wardrobe) auto

lemma resolveItems_Nil: "resolveItems wardrobe [] = []"
  by (simp add: resolveItems_def map_filter_simps)

lemma resolveItems_Cons:
  "resolveItems wardrobe (i # is) =
     (case find (\<lambda>w. ci_id w = i) wardrobe of None \<Rightarrow> resolveItems wardrobe is
      | Some x \<Rightarrow> x # resolveItems wardrobe is)"
  by (simp add: resolveItems_def map_filter_simps split: option.splits)

lemma resolveItems_subset: "set (resolveItems wardrobe itemIds) \<subseteq> set wardrobe"
  by (induction itemIds)
     (auto simp: resolveItems_Nil resolveItems_Cons dest: find_id split: option.splits)

lemma resolveItems_count:
  "length (filter (\<lambda>a. ci_id a = i) (resolveItems wardrobe itemIds)) =
     (if i \<in> ci_id ` set wardrobe then count_list itemIds i else 0)"
proof (induction itemIds)
  case Nil
  show ?case by (simp add: resolveItems_Nil)
next
  case (Cons j js)
  show ?case
  proof (cases "find (\<lambda>w. ci_id w = j) wardrobe")
    case None
    then have "j \<notin> ci_id ` set wardrobe" by (simp add: find_None_iff_id)
    with None Cons show ?thesis by (auto simp: resolveItems_Cons)
  next
    case (Some x)
    then have "ci_id x = j" "x \<in> set wardrobe" using find_id by blast+
    with Some Cons show ?thesis by (auto simp: resolveItems_Cons)
  qed
qed

lemma sort_keeps_category_order:
  "filter (\<lambda>a. ci_category a = c) (sort_key (\<lambda>a. priority (ci_category a)) xs) =
     filter (\<lambda>a. ci_category a = c) xs"
proof -
  have "filter (\<lambda>a. priority (ci_category a) = priority c)
          (sort_key (\<lambda>a. priority (ci_category a)) xs) =
        filter (\<lambda>a. priority (ci_category a) = priority c) xs"
    by (rule sort_key_stable)
  then show ?thesis by (simp add: priority_inj)
qed

text \<open>
  C6 (as amended). For an outfit drawn in the full layout (the way the generated outfit of
  the single and inspiration modes is), the items drawn are the wardrobe items its ids
  resolve to, no more and no fewer: they are wardrobe items, an id that some wardrobe item
  has contributes one drawn item per occurrence, and an id that no wardrobe item has
  contributes none. They are drawn in the order Top, One-Piece, Outerwear, Bottom, Shoes,
  Accessory, Other given by the priority table, and items of one category keep the order
  of the ids. In the compact layout (the way the outfits of a weekly plan are drawn) the
  items drawn are the first four of that list.
\<close>

theorem outfit_rendered_head_to_toe:
  "mset (renderedItems (renderOutfitVisual wardrobe itemIds False)) =
     mset (resolveItems wardrobe itemIds)
   \<and> set (renderedItems (renderOutfitVisual wardrobe itemIds False)) \<subseteq> set wardrobe
   \<and> (\<forall>i. length (filter (\<lambda>a. ci_id a = i)
              (renderedItems (renderOutfitVisual wardrobe itemIds False))) =
           (if i \<in> ci_id ` set wardrobe then count_list itemIds i else 0))
   \<and> sorted (map (\<lambda>a. priority (ci_category a))
        (renderedItems (renderOutfitVisual wardrobe itemIds False)))
   \<and> (\<forall>c. filter (\<lambda>a. ci_category a = c)
              (renderedItems (renderOutfitVisual wardrobe itemIds False)) =
           filter (\<lambda>a. ci_category a = c) (resolveItems wardrobe itemIds))
   \<and> map priority [Top, OnePiece, Outerwear, Bottom, Shoes, Accessory, Other] =
       [1, 2, 3, 4, 5, 6, 7]
   \<and> renderedItems (renderOutfitVisual wardrobe itemIds True) =
       take 4 (renderedItems (renderOutfitVisual wardrobe itemIds False))"
proof -
  let ?shown = "renderedItems (renderOutfitVisual wardrobe itemIds False)"
  have shown: "?shown = sort_key (\<lambda>a. priority (ci_category a)) (resolveItems wardrobe itemIds)"
    by (rule renderedItems_full)
  have 1: "mset ?shown = mset (resolveItems wardrobe itemIds)"
    by (simp add: shown)
  have 2: "set ?shown \<subseteq> set wardrobe"
    using resolveItems_subset [of wardrobe itemIds] by (simp add: shown)
  have 3: "length (filter (\<lambda>a. ci_id a = i) ?shown) =
        (if i \<in> ci_id ` set wardrobe then count_list itemIds i else 0)" for i
    using resolveItems_count [of i wardrobe itemIds] by (simp add: shown filter_sort)
  have 4: "sorted (map (\<lambda>a. priority (ci_category a)) ?shown)"
    by (simp add: shown)
  have 5: "filter (\<lambda>a. ci_category a = c) ?shown =
        filter (\<lambda>a. ci_category a = c) (resolveItems wardrobe itemIds)" for c
    by (simp add: shown sort_keeps_category_order)
  have 6: "renderedItems (renderOutfitVisual wardrobe itemIds True) = take 4 ?shown"
    by (simp add: renderOutfitVisual_def Let_def)
  from 1 2 3 4 5 6 priority_values show ?thesis by blast
qed

theorem outfit_rendered_head_to_toe_witness:
  "renderedItems (renderOutfitVisual
      [sampleItem ''3'' Shoes ''White'', sampleItem ''1'' Top ''Navy Blue'',
       sampleItem ''2'' Bottom ''Black'']
      [''3'', ''9'', ''2'', ''1''] False) =
     [sampleItem ''1'' Top ''Navy Blue'', sampleItem ''2'' Bottom ''Black'',
      sampleItem ''3'' Shoes ''White'']
   \<and> sorted (map (\<lambda>a. priority (ci_category a))
       (renderedItems (renderOutfitVisual
          [sampleItem ''3'' Shoes ''White'', sampleItem ''1'' Top ''Navy Blue'',
           sampleItem ''2'' Bottom ''Black'']
          [''3'', ''9'', ''2'', ''1''] False)))"
proof -
  have shown: "renderedItems (renderOutfitVisual
      [sampleItem ''3'' Shoes ''White'', sampleItem ''1'' Top ''Navy Blue'',
       sampleItem ''2'' Bottom ''Black'']
      [''3'', ''9'', ''2'', ''1''] False) =
     [sampleItem ''1'' Top ''Navy Blue'', sampleItem ''2'' Bottom ''Black'',
      sampleItem ''3'' Shoes ''White'']"
    by (simp add: renderOutfitVisual_def resolveItems_def map_filter_simps sampleItem_def
        priority_def categoryOrder_def)
  from outfit_rendered_head_to_toe
      [of "[sampleItem ''3'' Shoes ''White'', sampleItem ''1'' Top ''Navy Blue'',
            sampleItem ''2'' Bottom ''Black'']" "[''3'', ''9'', ''2'', ''1'']"]
  have "sorted (map (\<lambda>a. priority (ci_category a))
       (renderedItems (renderOutfitVisual
          [sampleItem ''3'' Shoes ''White'', sampleItem ''1'' Top ''Navy Blue'',
           sampleItem ''2'' Bottom ''Black'']
          [''3'', ''9'', ''2'', ''1''] False)))"
    by blast
  with shown show ?thesis by blast
qed

theorem compact_layout_counterexample:
  "resolveItems
      [sampleItem ''1'' Top ''White'', sampleItem ''2'' Bottom ''Black'',
       sampleItem ''3'' Shoes ''White'', sampleItem ''4'' Outerwear ''Beige'',
       sampleItem ''5'' Accessory ''Gold'']
      [''5'', ''4'', ''3'', ''2'', ''1''] =
     [sampleItem ''5'' Accessory ''Gold'', sampleItem ''4'' Outerwear ''Beige'',
      sampleItem ''3'' Shoes ''White'', sampleItem ''2'' Bottom ''Black'',
      sampleItem ''1'' Top ''White'']
   \<and> map_sum id (map ds_visual) (renderWeeklyPlan
      [sampleItem ''1'' Top ''White'', sampleItem ''2'' Bottom ''Black'',
       sampleItem ''3'' Shoes ''White'', sampleItem ''4'' Outerwear ''Beige'',
       sampleItem ''5'' Accessory ''Gold'']
      WEEKLY ''Busy Week'' False
      (Some (object_of_members
        [(''Monday'', Some (sampleOutfit [''5'', ''4'', ''3'', ''2'', ''1'']))]))) =
     Inr [CompactGrid
        [sampleItem ''1'' Top ''White'', sampleItem ''4'' Outerwear ''Beige'',
         sampleItem ''2'' Bottom ''Black'', sampleItem ''3'' Shoes ''White'']]"
  by (simp add: renderWeeklyPlan_def Object_entries_def object_of_members_def
      is_array_index_def is_digit_def renderDaySection_def renderOutfitVisual_def
      resolveItems_def map_filter_simps sampleItem_def sampleOutfit_def priority_def
      categoryOrder_def)

lemma keys_define_property:
  "map fst (define_property k v obj) =
     (if k \<in> set (map fst obj) then map fst obj else map fst obj @ [k])"
  by (induction obj) force+

lemma set_define_property: "set (define_property k v obj) \<subseteq> insert (k, v) (set obj)"
  by (induction obj) (auto split: if_splits)

lemma keys_foldl_define:
  "map fst (foldl (\<lambda>obj (k, v). define_property k v obj) obj members) =
     map fst obj @ filter (\<lambda>k. k \<notin> set (map fst obj)) (first_listed (map fst members))"
proof (induction members arbitrary: obj)
  case Nil
  show ?case by simp
next
  case (Cons m members)
  obtain k v where m: "m = (k, v)" by (cases m)
  show ?case
  proof (cases "k \<in> set (map fst obj)")
    case True
    then have "filter (\<lambda>x. x \<notin> set (map fst obj)) (removeAll k (first_listed (map fst members))) =
               filter (\<lambda>x. x \<notin> set (map fst obj)) (first_listed (map fst members))"
      by (auto simp: removeAll_filter_not_eq intro: filter_cong)
    with True show ?thesis
      by (simp add: m Cons.IH keys_define_property)
  next
    case False
    then have "filter (\<lambda>x. x \<noteq> k \<and> x \<notin> set (map fst obj)) (first_listed (map fst members)) =
               filter (\<lambda>x. x \<notin> set (map fst obj)) (removeAll k (first_listed (map fst members)))"
      by (auto simp: removeAll_filter_not_eq intro: filter_cong)
    with False show ?thesis
      by (simp add: m Cons.IH keys_define_property)
  qed
qed

text \<open>The keys of a parsed object are the keys of the text, each at its first mention.\<close>

lemma keys_object_of_members:
  "map fst (object_of_members members) = first_listed (map fst members)"
  by (simp add: object_of_members_def keys_foldl_define)

lemma distinct_first_listed: "distinct (first_listed ks)"
  by (induction ks) (auto simp: distinct_removeAll)

lemma object_keys_distinct: "distinct (map fst (object_of_members members))"
  by (simp only: keys_object_of_members distinct_first_listed)

lemma set_foldl_define:
  "set (foldl (\<lambda>obj (k, v). define_property k v obj) obj members) \<subseteq> set obj \<union> set members"
proof (induction members arbitrary: obj)
  case Nil
  show ?case by simp
next
  case (Cons m members)
  obtain k v where m: "m = (k, v)" by (cases m)
  from Cons.IH [of "define_property k v obj"] set_define_property [of k v obj]
  show ?case by (auto simp: m)
qed

lemma set_object_of_members: "set (object_of_members members) \<subseteq> set members"
  using set_foldl_define [of "[]" members] by (simp add: object_of_members_def)

lemma set_first_listed: "set (first_listed ks) = set ks"
  by (induction ks) auto

lemma first_listed_distinct: "distinct ks \<Longrightarrow> first_listed ks = ks"
  by (induction ks) (auto simp: set_first_listed)

lemma Object_entries_no_index:
  assumes "\<forall>k \<in> set (map fst obj). \<not> is_array_index k"
  shows "Object_entries obj = obj"
proof -
  from assms have "filter (\<lambda>(k, v). is_array_index k) obj = []"
    by (auto simp: filter_empty_conv)
  moreover from assms have "filter (\<lambda>(k, v). \<not> is_array_index k) obj = obj"
    by (auto simp: filter_id_conv)
  ultimately show ?thesis by (simp add: Object_entries_def)
qed

text \<open>Keys that are array indices come first, whatever the text's order.\<close>

lemma Object_entries_index_first:
  "map fst (Object_entries (object_of_members [(''Monday'', a), (''1'', b), (''0'', c)])) =
     [''0'', ''1'', ''Monday'']"
  by (simp add: Object_entries_def object_of_members_def is_array_index_def is_digit_def
      digits_value_def)

lemma weekday_not_index:
  "\<forall>k \<in> {''Monday'', ''Tuesday'', ''Wednesday'', ''Thursday'', ''Friday''}. \<not> is_array_index k"
  by (simp add: is_array_index_def is_digit_def)

lemma card_weekdays:
  "card {''Monday'', ''Tuesday'', ''Wednesday'', ''Thursday'', ''Friday''} = 5"
  by simp

lemma map_throwing_all_drawn:
  "\<forall>x \<in> set xs. \<exists>y. f x = Inr y \<and> day y = key x \<Longrightarrow>
     \<exists>ys. map_throwing f xs = Inr ys \<and> map day ys = map key xs"
  by (induction xs) auto

lemma renderDaySection_drawn:
  "o_itemIds outfit = Some ids \<Longrightarrow>
     \<exists>y. renderDaySection wardrobe mode vibeInput (d, Some outfit) = Inr y \<and> ds_day y = d"
  by (simp add: renderDaySection_def)

lemma weekly_entries:
  assumes keys: "set (map fst members) =
      {''Monday'', ''Tuesday'', ''Wednesday'', ''Thursday'', ''Friday''}"
  shows "Object_entries (object_of_members members) = object_of_members members"
proof -
  have "set (first_listed (map fst members)) =
      {''Monday'', ''Tuesday'', ''Wednesday'', ''Thursday'', ''Friday''}"
    by (simp only: set_first_listed keys)
  then have "\<forall>k \<in> set (first_listed (map fst members)). \<not> is_array_index k"
    using weekday_not_index by (simp only:)
  then have "\<forall>k \<in> set (map fst (object_of_members members)). \<not> is_array_index k"
    by (simp only: keys_object_of_members)
  then show ?thesis
    by (rule Object_entries_no_index)
qed

lemma weekly_all_drawn:
  assumes days: "\<forall>(d, v) \<in> set members. \<exists>outfit ids. v = Some outfit \<and> o_itemIds outfit = Some ids"
  shows "\<exists>ys. map_throwing (renderDaySection wardrobe mode vibeInput) (object_of_members members) =
             Inr ys
           \<and> map ds_day ys = first_listed (map fst members)"
proof -
  have "\<exists>y. renderDaySection wardrobe mode vibeInput x = Inr y \<and> ds_day y = fst x"
    if "x \<in> set (object_of_members members)" for x
  proof -
    obtain d v where x: "x = (d, v)" by (cases x)
    from that set_object_of_members [of members] have "x \<in> set members"
      by (rule subsetD [rotated])
    with days x have "\<exists>outfit ids. v = Some outfit \<and> o_itemIds outfit = Some ids"
      by fast
    then obtain outfit ids where "v = Some outfit" "o_itemIds outfit = Some ids"
      by fast
    with renderDaySection_drawn [of outfit ids wardrobe mode vibeInput d]
    show ?thesis by (simp add: x)
  qed
  then have "\<forall>x \<in> set (object_of_members members).
      \<exists>y. renderDaySection wardrobe mode vibeInput x = Inr y \<and> ds_day y = fst x"
    by (rule ballI)
  then have "\<exists>ys. map_throwing (renderDaySection wardrobe mode vibeInput) (object_of_members members) =
             Inr ys
           \<and> map ds_day ys = map fst (object_of_members members)"
    by (rule map_throwing_all_drawn)
  then show ?thesis
    by (simp only: keys_object_of_members)
qed

lemma weekly_five:
  assumes keys: "set (map fst members) =
      {''Monday'', ''Tuesday'', ''Wednesday'', ''Thursday'', ''Friday''}"
  shows "length (first_listed (map fst members)) = 5"
proof -
  have "length (first_listed (map fst members)) = card (set (first_listed (map fst members)))"
    by (simp only: distinct_card [OF distinct_first_listed])
  also have "\<dots> = card {''Monday'', ''Tuesday'', ''Wednesday'', ''Thursday'', ''Friday''}"
    by (simp only: set_first_listed keys)
  also have "\<dots> = 5"
    by (rule card_weekdays)
  finally show ?thesis .
qed

text \<open>
  A day that the response gives without \<open>itemIds\<close> makes the render throw, and no section
  is drawn.
\<close>

lemma weekly_day_without_itemIds_throws:
  "renderWeeklyPlan [] WEEKLY ''Busy Week'' False
     (Some (object_of_members
       [(''Monday'', Some (sampleOutfit [''1''])),
        (''Tuesday'', Some \<lparr>o_id = None, o_itemIds = None, o_vibe = None,
                            o_explanation = Some ''sample''\<rparr>)])) = Inl TypeError"
  by (simp add: renderWeeklyPlan_def Object_entries_def object_of_members_def
      is_array_index_def is_digit_def renderDaySection_def sampleOutfit_def)

text \<open>
  C7 (as amended). For a weekly-plan response whose keys are the five weekday names and
  whose days are outfit objects with their item ids, the operation returns the object with
  these keys, and the stylist view draws five outfit sections, one for each weekday, in
  the order in which the response first mentions the days. That is the order of the
  response's keys when it mentions no day twice, and it is Monday, Tuesday, Wednesday,
  Thursday, Friday when the response lists the days in that order.
\<close>

theorem weekly_sections_follow_response:
  assumes keys: "set (map fst members) =
      {''Monday'', ''Tuesday'', ''Wednesday'', ''Thursday'', ''Friday''}"
    and days: "\<forall>(d, v) \<in> set members. \<exists>outfit ids. v = Some outfit \<and> o_itemIds outfit = Some ids"
  shows "fst (generateWeeklyPlan (w # ws) weather theme (Resolved (Some (Encoding (Some members))))) =
      Inr (Some (object_of_members members))
    \<and> (\<exists>sections.
         renderWeeklyPlan (w # ws) mode vibeInput False (Some (object_of_members members)) =
           Inr sections
         \<and> map ds_day sections = first_listed (map fst members)
         \<and> length sections = 5
         \<and> distinct (map ds_day sections)
         \<and> set (map ds_day sections) =
             {''Monday'', ''Tuesday'', ''Wednesday'', ''Thursday'', ''Friday''}
         \<and> (distinct (map fst members) \<longrightarrow> map ds_day sections = map fst members)
         \<and> (map fst members = [''Monday'', ''Tuesday'', ''Wednesday'', ''Thursday'', ''Friday''] \<longrightarrow>
              map ds_day sections =
                [''Monday'', ''Tuesday'', ''Wednesday'', ''Thursday'', ''Friday'']))"
proof -
  let ?obj = "object_of_members members"
  let ?days = "first_listed (map fst members)"
  from weekly_all_drawn [OF days, of "w # ws" mode vibeInput]
  obtain sections
    where drawn: "map_throwing (renderDaySection (w # ws) mode vibeInput) ?obj = Inr sections"
      and day_order: "map ds_day sections = ?days"
    by fast
  have entries: "Object_entries ?obj = ?obj"
    using keys by (rule weekly_entries)
  have "renderWeeklyPlan (w # ws) mode vibeInput False (Some ?obj) =
      map_throwing (renderDaySection (w # ws) mode vibeInput) (Object_entries ?obj)"
    by (simp add: renderWeeklyPlan_def)
  then have render: "renderWeeklyPlan (w # ws) mode vibeInput False (Some ?obj) = Inr sections"
    by (simp only: entries drawn)
  have "length (map ds_day sections) = 5"
    using weekly_five [OF keys] by (simp only: day_order)
  then have len: "length sections = 5"
    by (simp only: length_map)
  have dist: "distinct (map ds_day sections)"
    using distinct_first_listed [of "map fst members"] by (simp only: day_order)
  have week: "set (map ds_day sections) =
      {''Monday'', ''Tuesday'', ''Wednesday'', ''Thursday'', ''Friday''}"
    using keys by (simp only: day_order set_first_listed)
  have same: "distinct (map fst members) \<longrightarrow> map ds_day sections = map fst members"
  proof
    assume "distinct (map fst members)"
    then have "?days = map fst members" by (rule first_listed_distinct)
    then show "map ds_day sections = map fst members" by (simp only: day_order)
  qed
  have mon_fri: "map fst members = [''Monday'', ''Tuesday'', ''Wednesday'', ''Thursday'', ''Friday''] \<longrightarrow>
      map ds_day sections = [''Monday'', ''Tuesday'', ''Wednesday'', ''Thursday'', ''Friday'']"
  proof
    assume m: "map fst members = [''Monday'', ''Tuesday'', ''Wednesday'', ''Thursday'', ''Friday'']"
    have "distinct [''Monday'', ''Tuesday'', ''Wednesday'', ''Thursday'', ''Friday'']"
      by simp
    then have "distinct (map fst members)" by (simp only: m)
    then have "?days = map fst members" by (rule first_listed_distinct)
    then have "map ds_day sections = map fst members" by (simp only: day_order)
    then show "map ds_day sections =
        [''Monday'', ''Tuesday'', ''Wednesday'', ''Thursday'', ''Friday'']"
      by (simp only: m)
  qed
  have plan: "fst (generateWeeklyPlan (w # ws) weather theme
      (Resolved (Some (Encoding (Some members))))) = Inr (Some ?obj)"
    using generateWeeklyPlan_parsed [of w ws weather theme "Some members"]
    by (simp only: option.map)
  have "\<exists>sections. renderWeeklyPlan (w # ws) mode vibeInput False (Some ?obj) = Inr sections
         \<and> map ds_day sections = ?days
         \<and> length sections = 5
         \<and> distinct (map ds_day sections)
         \<and> set (map ds_day sections) =
             {''Monday'', ''Tuesday'', ''Wednesday'', ''Thursday'', ''Friday''}
         \<and> (distinct (map fst members) \<longrightarrow> map ds_day sections = map fst members)
         \<and> (map fst members = [''Monday'', ''Tuesday'', ''Wednesday'', ''Thursday'', ''Friday''] \<longrightarrow>
              map ds_day sections =
                [''Monday'', ''Tuesday'', ''Wednesday'', ''Thursday'', ''Friday''])"
  proof (rule exI [of _ sections])
    from render day_order len dist week same mon_fri
    show "renderWeeklyPlan (w # ws) mode vibeInput False (Some ?obj) = Inr sections
         \<and> map ds_day sections = ?days
         \<and> length sections = 5
         \<and> distinct (map ds_day sections)
         \<and> set (map ds_day sections) =
             {''Monday'', ''Tuesday'', ''Wednesday'', ''Thursday'', ''Friday''}
         \<and> (distinct (map fst members) \<longrightarrow> map ds_day sections = map fst members)
         \<and> (map fst members = [''Monday'', ''Tuesday'', ''Wednesday'', ''Thursday'', ''Friday''] \<longrightarrow>
              map ds_day sections =
                [''Monday'', ''Tuesday'', ''Wednesday'', ''Thursday'', ''Friday''])"
      by (intro conjI)
  qed
  with plan show ?thesis by (rule conjI)
qed

theorem weekly_sections_follow_response_witness:
  "set (map fst
      [(''Monday'', Some (sampleOutfit [''1''])), (''Tuesday'', Some (sampleOutfit [''2''])),
       (''Wednesday'', Some (sampleOutfit [''1''])), (''Thursday'', Some (sampleOutfit [''2''])),
       (''Friday'', Some (sampleOutfit [''1'']))]) =
     {''Monday'', ''Tuesday'', ''Wednesday'', ''Thursday'', ''Friday''}
   \<and> (\<exists>sections.
        renderWeeklyPlan [sampleItem ''1'' Top ''White'', sampleItem ''2'' Bottom ''Black'']
          WEEKLY ''Busy Week'' False
          (Some (object_of_members
            [(''Monday'', Some (sampleOutfit [''1''])), (''Tuesday'', Some (sampleOutfit [''2''])),
             (''Wednesday'', Some (sampleOutfit [''1''])), (''Thursday'', Some (sampleOutfit [''2''])),
             (''Friday'', Some (sampleOutfit [''1'']))])) = Inr sections
        \<and> map ds_day sections = [''Monday'', ''Tuesday'', ''Wednesday'', ''Thursday'', ''Friday''])"
proof -
  have keys: "set (map fst
      [(''Monday'', Some (sampleOutfit [''1''])), (''Tuesday'', Some (sampleOutfit [''2''])),
       (''Wednesday'', Some (sampleOutfit [''1''])), (''Thursday'', Some (sampleOutfit [''2''])),
       (''Friday'', Some (sampleOutfit [''1'']))]) =
     {''Monday'', ''Tuesday'', ''Wednesday'', ''Thursday'', ''Friday''}"
    by simp
  have days: "\<forall>(d, v) \<in> set
      [(''Monday'', Some (sampleOutfit [''1''])), (''Tuesday'', Some (sampleOutfit [''2''])),
       (''Wednesday'', Some (sampleOutfit [''1''])), (''Thursday'', Some (sampleOutfit [''2''])),
       (''Friday'', Some (sampleOutfit [''1'']))].
      \<exists>outfit ids. v = Some outfit \<and> o_itemIds outfit = Some ids"
    by (simp add: sampleOutfit_def)
  have listed: "first_listed (map fst
      [(''Monday'', Some (sampleOutfit [''1''])), (''Tuesday'', Some (sampleOutfit [''2''])),
       (''Wednesday'', Some (sampleOutfit [''1''])), (''Thursday'', Some (sampleOutfit [''2''])),
       (''Friday'', Some (sampleOutfit [''1'']))]) =
     [''Monday'', ''Tuesday'', ''Wednesday'', ''Thursday'', ''Friday'']"
    by simp
  from weekly_sections_follow_response
    [OF keys days, of "sampleItem ''1'' Top ''White''" "[sampleItem ''2'' Bottom ''Black'']"
       "''clear skies''" "''Busy Week''" WEEKLY "''Busy Week''"]
  obtain sections where
    "renderWeeklyPlan [sampleItem ''1'' Top ''White'', sampleItem ''2'' Bottom ''Black'']
          WEEKLY ''Busy Week'' False
          (Some (object_of_members
            [(''Monday'', Some (sampleOutfit [''1''])), (''Tuesday'', Some (sampleOutfit [''2''])),
             (''Wednesday'', Some (sampleOutfit [''1''])), (''Thursday'', Some (sampleOutfit [''2''])),
             (''Friday'', Some (sampleOutfit [''1'']))])) = Inr sections"
    and "map ds_day sections = first_listed (map fst
      [(''Monday'', Some (sampleOutfit [''1''])), (''Tuesday'', Some (sampleOutfit [''2''])),
       (''Wednesday'', Some (sampleOutfit [''1''])), (''Thursday'', Some (sampleOutfit [''2''])),
       (''Friday'', Some (sampleOutfit [''1'']))])"
    by fast
  then have drawn: "renderWeeklyPlan [sampleItem ''1'' Top ''White'', sampleItem ''2'' Bottom ''Black'']
          WEEKLY ''Busy Week'' False
          (Some (object_of_members
            [(''Monday'', Some (sampleOutfit [''1''])), (''Tuesday'', Some (sampleOutfit [''2''])),
             (''Wednesday'', Some (sampleOutfit [''1''])), (''Thursday'', Some (sampleOutfit [''2''])),
             (''Friday'', Some (sampleOutfit [''1'']))])) = Inr sections
        \<and> map ds_day sections = [''Monday'', ''Tuesday'', ''Wednesday'', ''Thursday'', ''Friday'']"
    by (simp only: listed)
  have "\<exists>sections.
        renderWeeklyPlan [sampleItem ''1'' Top ''White'', sampleItem ''2'' Bottom ''Black'']
          WEEKLY ''Busy Week'' False
          (Some (object_of_members
            [(''Monday'', Some (sampleOutfit [''1''])), (''Tuesday'', Some (sampleOutfit [''2''])),
             (''Wednesday'', Some (sampleOutfit [''1''])), (''Thursday'', Some (sampleOutfit [''2''])),
             (''Friday'', Some (sampleOutfit [''1'']))])) = Inr sections
        \<and> map ds_day sections = [''Monday'', ''Tuesday'', ''Wednesday'', ''Thursday'', ''Friday'']"
    by (rule exI [of _ sections]) (rule drawn)
  with keys show ?thesis by (rule conjI)
qed

theorem weekly_order_counterexample:
  "set (map fst
      [(''Friday'', Some (sampleOutfit [''1''])), (''Monday'', Some (sampleOutfit [''2''])),
       (''Thursday'', Some (sampleOutfit [''1''])), (''Tuesday'', Some (sampleOutfit [''2''])),
       (''Wednesday'', Some (sampleOutfit [''1'']))]) =
     {''Monday'', ''Tuesday'', ''Wednesday'', ''Thursday'', ''Friday''}
   \<and> map_sum id (map ds_day)
       (renderWeeklyPlan [sampleItem ''1'' Top ''White'', sampleItem ''2'' Bottom ''Black'']
          WEEKLY ''Busy Week'' False
          (Some (object_of_members
            [(''Friday'', Some (sampleOutfit [''1''])), (''Monday'', Some (sampleOutfit [''2''])),
             (''Thursday'', Some (sampleOutfit [''1''])), (''Tuesday'', Some (sampleOutfit [''2''])),
             (''Wednesday'', Some (sampleOutfit [''1'']))]))) =
     Inr [''Friday'', ''Monday'', ''Thursday'', ''Tuesday'', ''Wednesday'']
   \<and> [''Friday'', ''Monday'', ''Thursday'', ''Tuesday'', ''Wednesday''] \<noteq>
     [''Monday'', ''Tuesday'', ''Wednesday'', ''Thursday'', ''Friday'']"
proof -
  have "map_sum id (map ds_day)
       (renderWeeklyPlan [sampleItem ''1'' Top ''White'', sampleItem ''2'' Bottom ''Black'']
          WEEKLY ''Busy Week'' False
          (Some (object_of_members
            [(''Friday'', Some (sampleOutfit [''1''])), (''Monday'', Some (sampleOutfit [''2''])),
             (''Thursday'', Some (sampleOutfit [''1''])), (''Tuesday'', Some (sampleOutfit [''2''])),
             (''Wednesday'', Some (sampleOutfit [''1'']))]))) =
     Inr [''Friday'', ''Monday'', ''Thursday'', ''Tuesday'', ''Wednesday'']"
    by (simp add: renderWeeklyPlan_def Object_entries_def object_of_members_def
        is_array_index_def is_digit_def renderDaySection_def sampleOutfit_def)
  moreover have "set (map fst
      [(''Friday'', Some (sampleOutfit [''1''])), (''Monday'', Some (sampleOutfit [''2''])),
       (''Thursday'', Some (sampleOutfit [''1''])), (''Tuesday'', Some (sampleOutfit [''2''])),
       (''Wednesday'', Some (sampleOutfit [''1'']))]) =
     {''Monday'', ''Tuesday'', ''Wednesday'', ''Thursday'', ''Friday''}"
    by auto
  moreover have "[''Friday'', ''Monday'', ''Thursday'', ''Tuesday'', ''Wednesday''] \<noteq>
     [''Monday'', ''Tuesday'', ''Wednesday'', ''Thursday'', ''Friday'']"
    by simp
  ultimately show ?thesis by (intro conjI)
qed

section \<open>Properties of the weather widget and the wishlist\<close>

text \<open>
  C8. For a weather snapshot that is drawn (not loading, no error): with a weather code of
  at most 3 the icon is the sun by day and the moon by night; with a weather code above 60
  the icon is the rain, by day and by night.
\<close>

theorem weather_icon_by_code:
  "(js_le (weatherCode w) (Finite 3) \<longrightarrow>
      WeatherWidget (Some w) False None =
        Card (Math_round (temperature w)) (getGreeting (temperature w))
          (if isDay w then Sun else Moon))
   \<and> (js_lt (Finite 60) (weatherCode w) \<longrightarrow>
      WeatherWidget (Some w) False None =
        Card (Math_round (temperature w)) (getGreeting (temperature w)) Rain)"
proof -
  have "\<not> js_le x (Finite 3) \<and> \<not> js_le x (Finite 60)" if "js_lt (Finite 60) x" for x
    using that by (cases x) auto
  then show ?thesis
    by (auto simp: WeatherWidget_def weatherIcon_def truthy_opt_def)
qed

theorem weather_icon_by_code_witness:
  "js_le (weatherCode \<lparr>temperature = Finite (41 / 2), weatherCode = Finite 2, isDay = False\<rparr>)
     (Finite 3)
   \<and> WeatherWidget (Some \<lparr>temperature = Finite (41 / 2), weatherCode = Finite 2, isDay = False\<rparr>)
       False None = Card (Finite 21) Beautiful Moon
   \<and> WeatherWidget (Some \<lparr>temperature = Finite (41 / 2), weatherCode = Finite 2, isDay = True\<rparr>)
       False None = Card (Finite 21) Beautiful Sun
   \<and> js_lt (Finite 60)
       (weatherCode \<lparr>temperature = Finite (17 / 2), weatherCode = Finite 61, isDay = True\<rparr>)
   \<and> WeatherWidget (Some \<lparr>temperature = Finite (17 / 2), weatherCode = Finite 61, isDay = True\<rparr>)
       False None = Card (Finite 9) Chilly Rain"
  using weather_icon_by_code
      [of "\<lparr>temperature = Finite (41 / 2), weatherCode = Finite 2, isDay = False\<rparr>"]
    weather_icon_by_code
      [of "\<lparr>temperature = Finite (41 / 2), weatherCode = Finite 2, isDay = True\<rparr>"]
    weather_icon_by_code
      [of "\<lparr>temperature = Finite (17 / 2), weatherCode = Finite 61, isDay = True\<rparr>"]
  by (simp add: getGreeting_def)

lemma number_or_zero: "number_or x (Finite 0) = (if x = NaN then Finite 0 else x)"
  by (cases x) auto

text \<open>
  C9. Submitting the wishlist form adds an item exactly when name, price and image are all
  non-empty. With one of them empty the handler returns with the form and the wishlist as
  they were; it has no failing branch. When it adds, the stored price is what
  \<open>parseFloat\<close> reads from the price text, or zero when that is not a number.
\<close>

theorem wishlist_submission:
  "(\<not> truthy (f_name form) \<or> \<not> truthy (f_price form) \<or> \<not> truthy_opt (f_previewImage form) \<longrightarrow>
      fst (handleAdd parseFloat now form s) = form
      \<and> fst (snd (handleAdd parseFloat now form s)) = s)
   \<and> (truthy (f_name form) \<and> truthy (f_price form) \<and> f_previewImage form = Some img \<and> truthy img \<longrightarrow>
      fst (snd (handleAdd parseFloat now form s)) =
        s\<lparr>app_wishlist :=
            \<lparr>wi_id = now,
             wi_name = f_name form @ '' '' @
               (if truthy (f_brand form) then ''('' @ f_brand form @ '')'' else ''''),
             wi_price = (if parseFloat (f_price form) = NaN then Finite 0
                         else parseFloat (f_price form)),
             wi_imageUrl = img\<rparr> # app_wishlist s\<rparr>)
   \<and> (length (app_wishlist (fst (snd (handleAdd parseFloat now form s)))) \<noteq> length (app_wishlist s)
        \<longleftrightarrow> truthy (f_name form) \<and> truthy (f_price form) \<and> truthy_opt (f_previewImage form))"
  by (auto simp: handleAdd_def addToWishlist_def truthy_opt_def number_or_zero split: option.splits)

theorem wishlist_submission_witness:
  "app_wishlist (fst (snd (handleAdd sampleParseFloat ''1700000000000''
      \<lparr>f_name = ''Red Dress'', f_price = ''40'', f_brand = ''Zara'',
       f_previewImage = Some ''data:image/png;base64,BBBB'', f_analysisResult = None\<rparr>
      (sampleApp [] [] None)))) =
     [\<lparr>wi_id = ''1700000000000'', wi_name = ''Red Dress (Zara)'', wi_price = Finite 40,
       wi_imageUrl = ''data:image/png;base64,BBBB''\<rparr>]
   \<and> app_wishlist (fst (snd (handleAdd sampleParseFloat ''1700000000000''
      \<lparr>f_name = ''Red Dress'', f_price = ''forty'', f_brand = '''',
       f_previewImage = Some ''data:image/png;base64,BBBB'', f_analysisResult = None\<rparr>
      (sampleApp [] [] None)))) =
     [\<lparr>wi_id = ''1700000000000'', wi_name = ''Red Dress '', wi_price = Finite 0,
       wi_imageUrl = ''data:image/png;base64,BBBB''\<rparr>]
   \<and> fst (snd (handleAdd sampleParseFloat ''1700000000000''
      \<lparr>f_name = ''Red Dress'', f_price = '''', f_brand = ''Zara'',
       f_previewImage = Some ''data:image/png;base64,BBBB'', f_analysisResult = None\<rparr>
      (sampleApp [] [] None))) = sampleApp [] [] None"
  using wishlist_submission [of
      "\<lparr>f_name = ''Red Dress'', f_price = ''40'', f_brand = ''Zara'',
        f_previewImage = Some ''data:image/png;base64,BBBB'', f_analysisResult = None\<rparr>"
      sampleParseFloat "''1700000000000''" "sampleApp [] [] None" "''data:image/png;base64,BBBB''"]
    wishlist_submission [of
      "\<lparr>f_name = ''Red Dress'', f_price = ''forty'', f_brand = '''',
        f_previewImage = Some ''data:image/png;base64,BBBB'', f_analysisResult = None\<rparr>"
      sampleParseFloat "''1700000000000''" "sampleApp [] [] None" "''data:image/png;base64,BBBB''"]
    wishlist_submission [of
      "\<lparr>f_name = ''Red Dress'', f_price = '''', f_brand = ''Zara'',
        f_previewImage = Some ''data:image/png;base64,BBBB'', f_analysisResult = None\<rparr>"
      sampleParseFloat "''1700000000000''" "sampleApp [] [] None" "''data:image/png;base64,BBBB''"]
  by (simp add: truthy_def truthy_opt_def sampleParseFloat_def sampleApp_def)

end
